theory Spec2Isabelle
  imports Main
begin

section \<open>JavaScript strings\<close>

text \<open>
  A JavaScript string is a sequence of UTF-16 code units, and every operation the terminal
  uses (\<^verbatim>\<open>trim\<close>, \<^verbatim>\<open>split\<close>, \<^verbatim>\<open>indexOf\<close>, \<^verbatim>\<open>substring\<close>, \<^verbatim>\<open>replace\<close>,
  indexing, \<^verbatim>\<open>length\<close>) counts code units. A code unit is modelled as its number; the
  functions below are defined for every number, so a statement about all lists covers all
  strings. \<open>str\<close> turns an ASCII literal into its code units.
\<close>

type_synonym jschar = nat
type_synonym jsstring = "jschar list"

definition str :: "string \<Rightarrow> jsstring" where
  "str s = map of_char s"

text \<open>
  ECMAScript \<^verbatim>\<open>LineTerminator\<close> (LF, CR, LS, PS) and the characters removed by
  \<^verbatim>\<open>String.prototype.trim\<close> and matched by the regular-expression class \<^verbatim>\<open>\s\<close>:
  \<^verbatim>\<open>WhiteSpace\<close> (TAB, VT, FF, ZWNBSP and the category Zs) together with
  \<^verbatim>\<open>LineTerminator\<close>.
\<close>

definition isLineTerminator :: "jschar \<Rightarrow> bool" where
  "isLineTerminator c = (c = 0x0A \<or> c = 0x0D \<or> c = 0x2028 \<or> c = 0x2029)"

definition isWhiteSpace :: "jschar \<Rightarrow> bool" where
  "isWhiteSpace c =
     (c = 0x09 \<or> c = 0x0B \<or> c = 0x0C \<or> c = 0x20 \<or> c = 0xA0 \<or> c = 0x1680
      \<or> (0x2000 \<le> c \<and> c \<le> 0x200A) \<or> c = 0x202F \<or> c = 0x205F \<or> c = 0x3000
      \<or> c = 0xFEFF \<or> isLineTerminator c)"

definition trim :: "jsstring \<Rightarrow> jsstring" where
  "trim s = rev (dropWhile isWhiteSpace (rev (dropWhile isWhiteSpace s)))"

text \<open>\<^verbatim>\<open>s.startsWith(p)\<close>, \<^verbatim>\<open>s.endsWith(p)\<close>.\<close>

fun startsWith :: "'a list \<Rightarrow> 'a list \<Rightarrow> bool" where
  "startsWith s [] = True"
| "startsWith [] (p # ps) = False"
| "startsWith (x # xs) (p # ps) = (x = p \<and> startsWith xs ps)"

definition endsWith :: "'a list \<Rightarrow> 'a list \<Rightarrow> bool" where
  "endsWith s p = startsWith (rev s) (rev p)"

text \<open>
  \<^verbatim>\<open>s.substring(a, b)\<close> and \<^verbatim>\<open>s.substring(a)\<close>: both indices are clamped to
  \<open>[0, length]\<close> and swapped when the first exceeds the second. The source computes
  indices that can be negative (\<^verbatim>\<open>startIndex - 7\<close>, \<^verbatim>\<open>-1\<close> from a failed search), so
  indices are integers.
\<close>

definition clampIndex :: "'a list \<Rightarrow> int \<Rightarrow> nat" where
  "clampIndex s i = (if i < 0 then 0 else min (nat i) (length s))"

definition substring :: "'a list \<Rightarrow> int \<Rightarrow> int \<Rightarrow> 'a list" where
  "substring s a b =
     (let i = clampIndex s a; j = clampIndex s b
      in take (max i j - min i j) (drop (min i j) s))"

definition substringFrom :: "'a list \<Rightarrow> int \<Rightarrow> 'a list" where
  "substringFrom s a = drop (clampIndex s a) s"

text \<open>
  \<^verbatim>\<open>s.indexOf(p)\<close>: the first position at which \<open>p\<close> occurs, or -1.
  \<^verbatim>\<open>s.indexOf(p, pos)\<close> starts the search at \<open>pos\<close>, clamped to \<open>[0, length]\<close>.
  \<^verbatim>\<open>s.includes(p)\<close> says whether \<open>p\<close> occurs.
\<close>

fun findIndex :: "'a list \<Rightarrow> 'a list \<Rightarrow> nat option" where
  "findIndex [] p = (if p = [] then Some 0 else None)"
| "findIndex (x # xs) p =
     (if startsWith (x # xs) p then Some 0 else map_option Suc (findIndex xs p))"

definition indexOf :: "'a list \<Rightarrow> 'a list \<Rightarrow> int" where
  "indexOf s p = (case findIndex s p of None \<Rightarrow> -1 | Some i \<Rightarrow> int i)"

definition indexOfFrom :: "'a list \<Rightarrow> 'a list \<Rightarrow> int \<Rightarrow> int" where
  "indexOfFrom s p pos =
     (let k = clampIndex s pos
      in case findIndex (drop k s) p of None \<Rightarrow> -1 | Some i \<Rightarrow> int (i + k))"

definition includes_str :: "'a list \<Rightarrow> 'a list \<Rightarrow> bool" where
  "includes_str s p = (indexOf s p \<noteq> -1)"

text \<open>
  \<^verbatim>\<open>s.split(c)\<close> for a separator of one code unit, the only form in the source
  (\<^verbatim>\<open>" "\<close> and \<^verbatim>\<open>":"\<close>). The result is never empty: the empty string splits into
  one empty piece.
\<close>

fun prependTo :: "'a \<Rightarrow> 'a list list \<Rightarrow> 'a list list" where
  "prependTo x [] = [[x]]"
| "prependTo x (p # ps) = (x # p) # ps"

fun split :: "'a list \<Rightarrow> 'a \<Rightarrow> 'a list list" where
  "split [] c = [[]]"
| "split (x # xs) c = (if x = c then [] # split xs c else prependTo x (split xs c))"

text \<open>
  \<^verbatim>\<open>s.replace(p, r)\<close> with a string pattern replaces the first occurrence only;
  \<^verbatim>\<open>s.replaceAll(p, r)\<close> and \<^verbatim>\<open>s.replace(/p/g, r)\<close> for a literal \<open>p\<close> replace every
  occurrence found scanning from the left, resuming after each match. An empty pattern
  matches before every code unit and at the end. No replacement text in the source
  contains \<^verbatim>\<open>$\<close>, so replacement texts are taken literally.
\<close>

fun replace :: "'a list \<Rightarrow> 'a list \<Rightarrow> 'a list \<Rightarrow> 'a list" where
  "replace [] p r = (if p = [] then r else [])"
| "replace (x # xs) p r =
     (if startsWith (x # xs) p then r @ drop (length p) (x # xs) else x # replace xs p r)"

function replaceAll :: "'a list \<Rightarrow> 'a list \<Rightarrow> 'a list \<Rightarrow> 'a list" where
  "replaceAll [] p r = (if p = [] then r else [])"
| "replaceAll (x # xs) p r =
     (if p = [] then r @ x # replaceAll xs p r
      else if startsWith (x # xs) p then r @ replaceAll (drop (length p) (x # xs)) p r
      else x # replaceAll xs p r)"
  by pat_completeness auto
termination
  by (relation "measure (\<lambda>(s, p, r). length s)") auto

text \<open>
  Indexing \<^verbatim>\<open>xs[i]\<close> of an array or a string, and \<^verbatim>\<open>xs.at(0)\<close>: the value
  \<^verbatim>\<open>undefined\<close> of an index out of range is \<open>None\<close>.
\<close>

definition at :: "'a list \<Rightarrow> int \<Rightarrow> 'a option" where
  "at xs i = (if 0 \<le> i \<and> i < int (length xs) then Some (xs ! nat i) else None)"

section \<open>PgTerminal: text styles\<close>

definition ESC :: jsstring where
  "ESC = [0x1B]"

definition RESET :: jsstring where
  "RESET = ESC @ str ''[0m''"

definition success :: "jsstring \<Rightarrow> jsstring" where
  "success text = ESC @ str ''[1;32m'' @ text @ RESET"

definition bold :: "jsstring \<Rightarrow> jsstring" where
  "bold text = ESC @ str ''[1m'' @ text @ RESET"

section \<open>PgTerminal.parseCommand\<close>

text \<open>
  \<^verbatim>\<open>parseCommand\<close> returns a boolean and acts through custom events, a call of the
  loaded WASM package and a timer. The model returns the boolean together with the
  effects in the order the source performs them. What it reads from its collaborators
  (connection, wallet) is the record \<open>Env\<close>; the optional argument \<^verbatim>\<open>wasm\<close> is an
  option, and the field of \<open>Wasm\<close> says whether \<^verbatim>\<open>wasm.parseSolana\<close> is present.
\<close>

datatype TerminalAction = buildStart | walletConnectOrSetupStart | deployStart

datatype WasmPkg = SOLANA_CLI

datatype CliArg = ArgString jsstring | ArgBytes "nat list"

datatype Effect =
    TerminalLog jsstring
  | TerminalEnable
  | TerminalState TerminalAction
  | LoadWasm WasmPkg
  | ParseSolana jsstring "CliArg list"
  | SetTimeout Effect nat

record Env =
  endpoint :: jsstring
  commitment :: jsstring
  keypairBytes :: "nat list"
  checkIsPgConnected :: bool

record Wasm =
  parseSolana :: bool

definition LF :: jsstring where
  "LF = [0x0A]"

definition HELP_TEXT :: jsstring where
  "HELP_TEXT =
     str ''COMMANDS:'' @ LF @
     str ''  build                      Build your program'' @ LF @
     str ''  connect                    Toggle connection to Playground Wallet'' @ LF @
     str ''  deploy                     Deploy your program'' @ LF @
     str ''  solana                     Access Solana CLI commands'' @ LF"

definition getSolanaCliArgs :: "Env \<Rightarrow> CliArg list" where
  "getSolanaCliArgs env =
     [ArgString (endpoint env), ArgString (commitment env), ArgBytes (keypairBytes env)]"

definition hasParseSolana :: "Wasm option \<Rightarrow> bool" where
  "hasParseSolana wasm = (case wasm of None \<Rightarrow> False | Some w \<Rightarrow> parseSolana w)"

definition parseCommand :: "Env \<Rightarrow> Wasm option \<Rightarrow> jsstring \<Rightarrow> bool \<times> Effect list" where
  "parseCommand env wasm line =
     (let cmd = trim line in
      if cmd = str ''help'' then (True, [TerminalLog HELP_TEXT, TerminalEnable])
      else if cmd = str ''build'' then (True, [TerminalState buildStart])
      else if cmd = str ''connect'' then (True, [TerminalState walletConnectOrSetupStart])
      else if cmd = str ''deploy'' then
        (True, if checkIsPgConnected env then [TerminalState deployStart] else [])
      else
        let cmdName = at (split cmd 0x20) 0 in
        if cmdName = Some (str ''solana'') then
          (True,
           if hasParseSolana wasm then
             (if checkIsPgConnected env
              then [ParseSolana cmd (getSolanaCliArgs env), SetTimeout TerminalEnable 1000]
              else [])
           else [LoadWasm SOLANA_CLI])
        else (False, []))"

section \<open>PgTerminal.convertErrorMessage\<close>

text \<open>
  The four error tables and \<^verbatim>\<open>PgCommon.isInt\<close> are imported from modules outside the
  sources at hand, and \<^verbatim>\<open>toLowerCase\<close>, \<^verbatim>\<open>toUpperCase\<close> are the Unicode case
  conversions of the JavaScript runtime: all of them are parameters of the model, gathered
  in the record \<open>Imports\<close>. A table is the list of its (key, value) pairs in the order
  \<^verbatim>\<open>for ... in\<close> enumerates the keys; the keys of an object are distinct, so the value
  read by \<^verbatim>\<open>TABLE[key]\<close> inside the loop is the second component of the pair.

  A read of a property of \<^verbatim>\<open>undefined\<close> throws a \<^verbatim>\<open>TypeError\<close>; the function
  catches nothing, so its result is either the error or the returned string. The index
  character \<^verbatim>\<open>parts[2][parts[2].length - 1]\<close> is \<^verbatim>\<open>undefined\<close> for an empty
  segment, and a template literal prints that value as the text \<^verbatim>\<open>undefined\<close>.
\<close>

datatype Error = TypeError

type_synonym table = "(jsstring \<times> jsstring) list"

record Imports =
  PROGRAM_ERROR :: table
  RPC_ERROR :: table
  SERVER_ERROR :: table
  OTHER_ERROR :: table
  isInt :: "jsstring option \<Rightarrow> bool"
  toLowerCase :: "jsstring \<Rightarrow> jsstring"
  toUpperCase :: "jsstring \<Rightarrow> jsstring"

definition charAt :: "jsstring \<Rightarrow> int \<Rightarrow> jsstring option" where
  "charAt s i = map_option (\<lambda>c. [c]) (at s i)"

definition template :: "jsstring option \<Rightarrow> jsstring" where
  "template v = (case v of None \<Rightarrow> str ''undefined'' | Some s \<Rightarrow> s)"

definition COLON :: jschar where
  "COLON = 0x3A"

definition hexProgramError :: "Imports \<Rightarrow> jsstring \<Rightarrow> jsstring \<Rightarrow> Error + jsstring" where
  "hexProgramError imp msg programError =
     (let parts = split msg COLON in
      case at parts 2 of
        None \<Rightarrow> Inl TypeError
      | Some part2 \<Rightarrow>
          (let ixIndex = charAt part2 (int (length part2) - 1);
               ixIndex = (if \<not> isInt imp ixIndex then Some (str ''0'') else ixIndex)
           in Inr (LF @ bold (str ''Instruction index:'') @ str '' '' @ template ixIndex @ LF @
                   bold (str ''Reason:'') @ str '' '' @ programError)))"

fun programErrorLoop :: "Imports \<Rightarrow> table \<Rightarrow> jsstring \<Rightarrow> (Error + jsstring) option" where
  "programErrorLoop imp [] msg = None"
| "programErrorLoop imp ((programErrorCode, programError) # rest) msg =
     (if endsWith msg (str ''0x'' @ toLowerCase imp programErrorCode)
      then Some (hexProgramError imp msg programError)
      else programErrorLoop imp rest msg)"

text \<open>\<^verbatim>\<open>part[1].toUpperCase() + part.substring(2)\<close>, for a segment that may be undefined.\<close>

definition capitalized :: "Imports \<Rightarrow> jsstring option \<Rightarrow> Error + jsstring" where
  "capitalized imp part =
     (case part of
        None \<Rightarrow> Inl TypeError
      | Some p \<Rightarrow>
          (case charAt p 1 of
             None \<Rightarrow> Inl TypeError
           | Some c \<Rightarrow> Inr (toUpperCase imp c @ substringFrom p 2)))"

definition descriptiveProgramError :: "Imports \<Rightarrow> jsstring \<Rightarrow> Error + jsstring" where
  "descriptiveProgramError imp msg =
     (let parts = split msg COLON in
      if length parts = 4 then
        (case at parts 2 of
           None \<Rightarrow> Inl TypeError
         | Some part2 \<Rightarrow>
             (let ixIndex = charAt part2 (int (length part2) - 1) in
              (case capitalized imp (at parts 3) of
                 Inl e \<Rightarrow> Inl e
               | Inr programError \<Rightarrow>
                   Inr (LF @ bold (str ''Instruction index:'') @ str '' '' @ template ixIndex @
                        LF @ bold (str ''Reason:'') @ str '' '' @ programError @ str ''.''))))
      else
        (case capitalized imp (at parts 2) of
           Inl e \<Rightarrow> Inl e
         | Inr programError \<Rightarrow> Inr (LF @ bold (str ''Reason:'') @ str '' '' @ programError @ str ''.'')))"

fun rpcErrorLoop :: "table \<Rightarrow> jsstring \<Rightarrow> jsstring option" where
  "rpcErrorLoop [] msg = None"
| "rpcErrorLoop ((rpcError, text) # rest) msg =
     (if includes_str msg rpcError then Some text else rpcErrorLoop rest msg)"

fun exactErrorLoop :: "table \<Rightarrow> jsstring \<Rightarrow> jsstring option" where
  "exactErrorLoop [] msg = None"
| "exactErrorLoop ((key, text) # rest) msg =
     (if msg = key then Some text else exactErrorLoop rest msg)"

definition convertErrorMessage :: "Imports \<Rightarrow> jsstring \<Rightarrow> Error + jsstring" where
  "convertErrorMessage imp msg =
     (case programErrorLoop imp (PROGRAM_ERROR imp) msg of
        Some result \<Rightarrow> result
      | None \<Rightarrow>
          if startsWith msg (str ''failed to send'') then descriptiveProgramError imp msg
          else
            (case rpcErrorLoop (RPC_ERROR imp) msg of
               Some text \<Rightarrow> Inr text
             | None \<Rightarrow>
                 (case exactErrorLoop (SERVER_ERROR imp) msg of
                    Some text \<Rightarrow> Inr text
                  | None \<Rightarrow>
                      (case exactErrorLoop (OTHER_ERROR imp) msg of
                         Some text \<Rightarrow> Inr text
                       | None \<Rightarrow> Inr msg))))"

section \<open>PgTerminal.editStderr\<close>

text \<open>
  The first step is \<^verbatim>\<open>stderr.replace(/\s\(\/home.+?(?=\s)/g, "")\<close>. A match starts with
  a white-space character and the text \<^verbatim>\<open>(/home\<close>; then \<^verbatim>\<open>.+?\<close> takes one character
  that is no line terminator and as few more as needed until the next character is white
  space (the lookahead, which consumes nothing). \<open>lazyDot\<close> is that extension, counting
  the characters taken after the first; \<open>homeMatch\<close> is the length of the match at the
  start of its argument. The pattern has no other choice point, so a failure at one
  position moves the search one code unit on, and a match resumes it after the match.
\<close>

fun lazyDot :: "jsstring \<Rightarrow> nat option" where
  "lazyDot [] = None"
| "lazyDot (c # cs) =
     (if isWhiteSpace c then Some 0
      else if isLineTerminator c then None
      else map_option Suc (lazyDot cs))"

definition homeMatch :: "jsstring \<Rightarrow> nat option" where
  "homeMatch s =
     (case s of
        [] \<Rightarrow> None
      | c # rest \<Rightarrow>
          if isWhiteSpace c \<and> startsWith rest (str ''(/home'') then
            (case drop 6 rest of
               [] \<Rightarrow> None
             | d # cs \<Rightarrow>
                 if isLineTerminator d then None
                 else map_option (\<lambda>k. 8 + k) (lazyDot cs))
          else None)"

function removeHomePaths :: "jsstring \<Rightarrow> jsstring" where
  "removeHomePaths [] = []"
| "removeHomePaths (c # cs) =
     (case homeMatch (c # cs) of
        Some n \<Rightarrow> removeHomePaths (drop n (c # cs))
      | None \<Rightarrow> c # removeHomePaths cs)"
  by pat_completeness auto
termination
proof (relation "measure length")
  show "wf (measure length)" by simp
next
  fix c :: jschar and cs :: jsstring and n :: nat
  assume "homeMatch (c # cs) = Some n"
  then have "0 < n"
    by (auto simp: homeMatch_def split: if_splits list.splits)
  then show "(drop n (c # cs), c # cs) \<in> measure length" by simp
next
  fix c :: jschar and cs :: jsstring
  show "(cs, c # cs) \<in> measure length" by simp
qed

definition COMPILING :: jsstring where
  "COMPILING = str ''Compiling solpg v0.1.0'' @ LF"

definition editStderr :: "jsstring \<Rightarrow> jsstring \<Rightarrow> jsstring" where
  "editStderr stderr0 uuid =
     (let stderr1 = removeHomePaths stderr0;
          stderr2 = replaceAll stderr1 uuid [];
          startIndex = indexOf stderr2 (str ''For more'');
          stderr3 =
            (if startIndex \<noteq> -1 then
               let endIndex = indexOfFrom stderr2 LF startIndex
               in substring stderr2 0 startIndex @ substringFrom stderr2 (endIndex + 1)
             else stderr2);
          stderr4 = replace stderr3 COMPILING [];
          startIndex = indexOf stderr4 (str ''Finished release'')
      in if startIndex \<noteq> -1 then
           let whiteSpaceStartIndex = startIndex - 7
           in substring stderr4 0 whiteSpaceStartIndex @
              replaceAll (substring stderr4 whiteSpaceStartIndex startIndex) (str '' '') [] @
              success (str ''Build successful. '') @
              str ''Completed'' @
              replace (substringFrom stderr4 (indexOfFrom stderr4 (str '' in'') startIndex))
                LF (str ''.'' @ LF)
         else stderr4)"

section \<open>PgTerm\<close>

text \<open>
  \<^verbatim>\<open>PgTerm\<close> owns a \<^verbatim>\<open>PgTty\<close> (module \<^verbatim>\<open>./tty\<close>) and a \<^verbatim>\<open>PgShell\<close> (module
  \<^verbatim>\<open>./shell\<close>). Neither module is among the sources at hand; what the methods of
  \<^verbatim>\<open>PgTerm\<close> need of them is modelled from the specification, each definition saying so.
  The methods of \<^verbatim>\<open>PgTerm\<close> themselves follow the source.

  The state of the tty is the InputLine (text and cursor offset), the cached size, and the
  sequence of things handed to the rendering surface. The state of the shell is its
  lifecycle state, the history (oldest entry first) and the lines handed to the command
  dispatcher so far.
\<close>

datatype Rendered = Text jsstring "bool option" | RenderedInput jsstring | ErasedInput

record PgTty =
  input :: jsstring
  cursor :: nat
  termCols :: int
  termRows :: int
  screen :: "Rendered list"

datatype ShellState = Idle | Prompting | Dispatching

record PgShell =
  state :: ShellState
  history :: "jsstring list"
  dispatched :: "jsstring list"

record PgTerm =
  isOpen :: bool
  pgTty :: PgTty
  pgShell :: PgShell

definition PROMPT :: jsstring where
  "PROMPT = str ''$ ''"

text \<open>
  Modelled from the spec: \<^verbatim>\<open>PgTty.print\<close> is missing. The specification's
  \<^verbatim>\<open>write(text, sync?)\<close> appends the text at the current cursor of the display.
\<close>

definition tty_print :: "jsstring \<Rightarrow> bool option \<Rightarrow> PgTty \<Rightarrow> PgTty" where
  "tty_print text sync tty = tty\<lparr>screen := screen tty @ [Text text sync]\<rparr>"

text \<open>
  Modelled from the spec: \<^verbatim>\<open>PgTty.clearInput\<close> is missing. The specification has it
  clear the rendered input, which is a change of the display only.
\<close>

definition clearInput :: "PgTty \<Rightarrow> PgTty" where
  "clearInput tty = tty\<lparr>screen := screen tty @ [ErasedInput]\<rparr>"

text \<open>
  Modelled from the spec: \<^verbatim>\<open>PgTty.setTermSize\<close> is missing. The specification's
  \<^verbatim>\<open>setSize(cols, rows)\<close> updates the dimensions and mutates no content by itself.
\<close>

definition setTermSize :: "int \<Rightarrow> int \<Rightarrow> PgTty \<Rightarrow> PgTty" where
  "setTermSize cols rows tty = tty\<lparr>termCols := cols, termRows := rows\<rparr>"

text \<open>
  Modelled from the spec: \<^verbatim>\<open>PgTty.getInput\<close> is missing. The specification's input
  accessor reads the text of the InputLine.
\<close>

definition getInput :: "PgTty \<Rightarrow> jsstring" where
  "getInput tty = input tty"

text \<open>
  Modelled from the spec: \<^verbatim>\<open>PgTty.setInput\<close> is missing. The specification has
  programmatic injection and the re-render after a resize put a text into the InputLine
  and render it, and keeps the cursor offset within \<open>[0, length]\<close>: the offset is kept
  unless the new text is shorter. The second argument of the source's call
  (\<^verbatim>\<open>shouldNotClearInput\<close>) says whether the rendered input has been cleared already.
\<close>

definition setInput :: "jsstring \<Rightarrow> bool \<Rightarrow> PgTty \<Rightarrow> PgTty" where
  "setInput newInput shouldNotClearInput tty =
     (let tty1 = (if shouldNotClearInput then tty else clearInput tty)
      in tty1\<lparr>screen := screen tty1 @ [RenderedInput newInput],
               cursor := min (cursor tty1) (length newInput),
               input := newInput\<rparr>)"

text \<open>
  Modelled from the spec: \<^verbatim>\<open>PgShell.isPrompting\<close> is missing. The specification: true
  iff the state is Prompting.
\<close>

definition isPrompting :: "PgShell \<Rightarrow> bool" where
  "isPrompting shell = (state shell = Prompting)"

text \<open>
  Modelled from the spec: \<^verbatim>\<open>PgShell.history.getPrevious\<close> is missing. The
  specification has \<^verbatim>\<open>runLastCmd\<close> recall the most recent history entry; with an empty
  history there is none (\<^verbatim>\<open>undefined\<close>).
\<close>

definition getPrevious :: "jsstring list \<Rightarrow> jsstring option" where
  "getPrevious entries = (if entries = [] then None else Some (last entries))"

text \<open>
  Modelled from the spec: \<^verbatim>\<open>PgShell.handleReadComplete\<close> is missing. The
  specification's submit freezes the current InputLine as the submitted command, appends
  it to the history if it is not empty, clears the InputLine, moves to Dispatching and
  hands the text to the command dispatcher.
\<close>

definition handleReadComplete :: "PgTerm \<Rightarrow> PgTerm" where
  "handleReadComplete term =
     (let line = getInput (pgTty term); shell = pgShell term
      in term\<lparr>pgTty := (pgTty term)\<lparr>input := [], cursor := 0\<rparr>,
              pgShell := shell\<lparr>history := (if line \<noteq> [] then history shell @ [line]
                                              else history shell),
                               state := Dispatching,
                               dispatched := dispatched shell @ [line]\<rparr>\<rparr>)"

text \<open>
  Modelled from the spec: \<^verbatim>\<open>PgShell.printAndRestartPrompt\<close> is missing. The
  specification: it clears the rendering of prompt and input, runs the callback, then
  renders the prompt again and restores the in-progress InputLine verbatim.
\<close>

definition printAndRestartPrompt :: "(PgTty \<Rightarrow> PgTty) \<Rightarrow> PgTerm \<Rightarrow> PgTerm" where
  "printAndRestartPrompt beforePrint term =
     (let tty = pgTty term;
          tty1 = beforePrint (clearInput tty)
      in term\<lparr>pgTty := tty1\<lparr>screen := screen tty1 @ [RenderedInput (PROMPT @ input tty)],
                              input := input tty,
                              cursor := cursor tty\<rparr>\<rparr>)"

subsection \<open>The methods of PgTerm, from the source\<close>

definition print :: "jsstring \<Rightarrow> bool option \<Rightarrow> PgTerm \<Rightarrow> PgTerm" where
  "print message0 sync term =
     (let message = replaceAll message0 (LF @ LF) (LF @ str '' '' @ LF) in
      if \<not> isOpen term then term
      else if isPrompting (pgShell term)
      then printAndRestartPrompt (tty_print (message @ LF) sync) term
      else term\<lparr>pgTty := tty_print message sync (pgTty term)\<rparr>)"

definition runCommand :: "jsstring \<Rightarrow> PgTerm \<Rightarrow> PgTerm" where
  "runCommand line term =
     (if isPrompting (pgShell term)
      then handleReadComplete (term\<lparr>pgTty := setInput line False (pgTty term)\<rparr>)
      else term)"

definition handleTermResize :: "int \<Rightarrow> int \<Rightarrow> PgTerm \<Rightarrow> PgTerm" where
  "handleTermResize rows cols term =
     (let tty1 = clearInput (pgTty term);
          tty2 = setTermSize cols rows tty1;
          tty3 = setInput (getInput tty2) True tty2
      in term\<lparr>pgTty := tty3\<rparr>)"

text \<open>
  \<^verbatim>\<open>runLastCmd\<close> passes whatever \<^verbatim>\<open>getPrevious\<close> returns to \<^verbatim>\<open>setInput\<close>. What
  \<^verbatim>\<open>setInput\<close> does with \<^verbatim>\<open>undefined\<close> is fixed neither by the sources at hand nor by
  the specification, so the model has no result for an empty history.
\<close>

definition runLastCmd :: "PgTerm \<Rightarrow> PgTerm option" where
  "runLastCmd term =
     (case getPrevious (history (pgShell term)) of
        None \<Rightarrow> None
      | Some line \<Rightarrow> Some (handleReadComplete (term\<lparr>pgTty := setInput line False (pgTty term)\<rparr>)))"

section \<open>Notions used in the statements\<close>

text \<open>
  The first white-space-delimited token of a line: what is left of the line, after its
  leading white space, up to the next white-space character.
\<close>

definition firstToken :: "jsstring \<Rightarrow> jsstring" where
  "firstToken line = takeWhile (\<lambda>c. \<not> isWhiteSpace c) (dropWhile isWhiteSpace line)"

text \<open>The first token of the trimmed line when only the space U+0020 delimits.\<close>

definition firstSpaceToken :: "jsstring \<Rightarrow> jsstring" where
  "firstSpaceToken line = takeWhile (\<lambda>c. c \<noteq> 0x20) (trim line)"

text \<open>Concrete collaborators for the closed statements.\<close>

definition env0 :: Env where
  "env0 = \<lparr>endpoint = str ''http://localhost:8899'', commitment = str ''confirmed'',
            keypairBytes = [1, 2, 3], checkIsPgConnected = False\<rparr>"

definition env1 :: Env where
  "env1 = env0\<lparr>checkIsPgConnected := True\<rparr>"

definition wasmLoaded :: "Wasm option" where
  "wasmLoaded = Some \<lparr>parseSolana = True\<rparr>"

text \<open>
  Sample values of the imported parameters, for the closed statements. The case
  conversions agree with JavaScript on ASCII text, which is all they are applied to.
\<close>

definition asciiLower :: "jsstring \<Rightarrow> jsstring" where
  "asciiLower s = map (\<lambda>c. if 0x41 \<le> c \<and> c \<le> 0x5A then c + 0x20 else c) s"

definition asciiUpper :: "jsstring \<Rightarrow> jsstring" where
  "asciiUpper s = map (\<lambda>c. if 0x61 \<le> c \<and> c \<le> 0x7A then c - 0x20 else c) s"

text \<open>
  Modelled from the spec: \<^verbatim>\<open>PgCommon.isInt\<close> is missing. The specification speaks of
  a character that is parseable as an integer: here a non-empty string of decimal digits,
  which \<^verbatim>\<open>undefined\<close> is not.
\<close>

definition isDecimal :: "jsstring option \<Rightarrow> bool" where
  "isDecimal v =
     (case v of None \<Rightarrow> False
      | Some s \<Rightarrow> s \<noteq> [] \<and> list_all (\<lambda>c. 0x30 \<le> c \<and> c \<le> 0x39) s)"

definition imp0 :: Imports where
  "imp0 = \<lparr>PROGRAM_ERROR = [(str ''1'', str ''Insufficient funds''),
                             (str ''7D0'', str ''A mut constraint was violated'')],
            RPC_ERROR = [(str ''Network request failed'', str ''RPC endpoint is not responsive'')],
            SERVER_ERROR = [(str ''Too Many Requests'', str ''Rate limit exceeded'')],
            OTHER_ERROR = [(str ''Unexpected token'', str ''Invalid JSON'')],
            isInt = isDecimal, toLowerCase = asciiLower, toUpperCase = asciiUpper\<rparr>"

text \<open>
  A text contains no home-directory path fragment when the pattern of the first step of
  \<^verbatim>\<open>editStderr\<close> matches at none of its positions.
\<close>

fun noHomePath :: "jsstring \<Rightarrow> bool" where
  "noHomePath [] = True"
| "noHomePath (c # cs) = (homeMatch (c # cs) = None \<and> noHomePath cs)"

text \<open>Build outputs for the closed statements about \<^verbatim>\<open>editStderr\<close>.\<close>

definition stderrJoin :: jsstring where
  "stderrJoin = str ''Finished relCompiling solpg v0.1.0'' @ LF @ str ''ease'' @ LF @
                str ''Compiling solpg v0.1.0'' @ LF"

definition stderrJoined :: jsstring where
  "stderrJoined = str ''Finished release'' @ LF @ str ''Compiling solpg v0.1.0'' @ LF"

definition stderrOk :: jsstring where
  "stderrOk = str ''   Compiling solpg v0.1.0'' @ LF @ str ''warning: unused variable'' @ LF"

text \<open>
  The rewriting of a message in the words of C9: going through the text from the left,
  every pair of consecutive newlines gets a space between its two newlines, and the
  search goes on after the pair.
\<close>

fun spaceDoubleNewlines :: "jsstring \<Rightarrow> jsstring" where
  "spaceDoubleNewlines (a # b # rest) =
     (if a = 0x0A \<and> b = 0x0A then [0x0A, 0x20, 0x0A] @ spaceDoubleNewlines rest
      else a # spaceDoubleNewlines (b # rest))"
| "spaceDoubleNewlines [a] = [a]"
| "spaceDoubleNewlines [] = []"

text \<open>An idle terminal with a line being edited and two commands in its history.\<close>

definition term0 :: PgTerm where
  "term0 = \<lparr>isOpen = True,
             pgTty = \<lparr>input = str ''sol'', cursor = 2, termCols = 80, termRows = 24,
                      screen = []\<rparr>,
             pgShell = \<lparr>state = Idle, history = [str ''build'', str ''solana balance''],
                        dispatched = []\<rparr>\<rparr>"

section \<open>Facts about the string operations\<close>

lemmas literal_defs = str_def trim_def isWhiteSpace_def isLineTerminator_def LF_def

lemma startsWith_iff: "startsWith s p \<longleftrightarrow> (\<exists>t. s = p @ t)"
  by (induction s p rule: startsWith.induct) auto

lemma endsWith_iff: "endsWith s p \<longleftrightarrow> (\<exists>t. s = t @ p)"
proof
  assume "endsWith s p"
  then obtain t where "rev s = rev p @ t"
    by (auto simp: endsWith_def startsWith_iff)
  then have "s = rev t @ p"
    by (metis rev_append rev_rev_ident)
  then show "\<exists>t. s = t @ p" ..
next
  assume "\<exists>t. s = t @ p"
  then show "endsWith s p"
    by (auto simp: endsWith_def startsWith_iff)
qed

lemma endsWith_set: "endsWith s (p @ q) \<Longrightarrow> set p \<subseteq> set s"
  by (auto simp: endsWith_iff)

lemma split_not_Nil: "split s c \<noteq> []"
  by (induction s) (auto simp: neq_Nil_conv elim: prependTo.elims)

lemma at_split_0: "at (split s c) 0 = Some (takeWhile (\<lambda>x. x \<noteq> c) s)"
proof (induction s)
  case Nil
  show ?case by (simp add: at_def)
next
  case (Cons x xs)
  obtain p ps where "split xs c = p # ps"
    using split_not_Nil [of xs c] by (cases "split xs c") auto
  with Cons show ?case by (simp add: at_def)
qed

lemma startsWith_findIndex: "startsWith s p \<Longrightarrow> findIndex s p = Some 0"
  by (cases s) (auto elim: startsWith.elims)

lemma findIndex_Nil: "findIndex s [] = Some 0"
  by (cases s) simp_all

lemma not_includes_str: "\<not> includes_str s p \<longleftrightarrow> findIndex s p = None"
  by (auto simp: includes_str_def indexOf_def split: option.splits)

lemma indexOf_absent: "\<not> includes_str s p \<Longrightarrow> indexOf s p = -1"
  by (simp add: includes_str_def)

lemma includes_str_append: "includes_str (a @ p @ b) p"
proof -
  have "findIndex (a @ p @ b) p \<noteq> None"
    by (induction a) (auto simp: startsWith_iff startsWith_findIndex)
  then show ?thesis
    by (auto simp: includes_str_def indexOf_def split: option.splits)
qed

text \<open>A pattern that does not occur is replaced nowhere.\<close>

lemma replaceAll_id: "findIndex s p = None \<Longrightarrow> replaceAll s p r = s"
proof (induction s)
  case Nil
  then show ?case by (simp split: if_splits)
next
  case (Cons x xs)
  have p: "p \<noteq> []"
    using Cons.prems findIndex_Nil [of "x # xs"] by auto
  from Cons.prems have ns: "\<not> startsWith (x # xs) p" and "findIndex xs p = None"
    by (simp_all split: if_splits)
  with Cons.IH have "replaceAll xs p r = xs" by simp
  with p ns show ?case by (simp only: replaceAll.simps if_False)
qed

text \<open>
  \<^verbatim>\<open>replace\<close> with a string pattern: the text before the first occurrence and the text
  after it are kept, the occurrence itself is replaced.
\<close>

lemma findIndex_Some:
  "findIndex s p = Some i \<Longrightarrow>
     \<exists>post. s = take i s @ p @ post \<and> i \<le> length s \<and> replace s p r = take i s @ r @ post"
proof (induction s arbitrary: i)
  case Nil
  then show ?case by (simp split: if_splits)
next
  case (Cons x xs)
  show ?case
  proof (cases "startsWith (x # xs) p")
    case True
    then obtain t where t: "x # xs = p @ t"
      by (auto simp: startsWith_iff)
    from True Cons.prems have i: "i = 0" by simp
    from t have d: "drop (length p) (x # xs) = t"
      by (metis append_eq_conv_conj)
    from True have "replace (x # xs) p r = r @ drop (length p) (x # xs)"
      by (simp del: startsWith.simps)
    with d have "replace (x # xs) p r = take i (x # xs) @ r @ t"
      by (simp add: i)
    moreover from t have "x # xs = take i (x # xs) @ p @ t"
      by (simp add: i)
    ultimately show ?thesis using i by blast
  next
    case False
    with Cons.prems obtain j where j: "findIndex xs p = Some j" and i: "i = Suc j"
      by auto
    from Cons.IH [OF j] obtain post where
      "xs = take j xs @ p @ post" "j \<le> length xs" "replace xs p r = take j xs @ r @ post"
      by blast
    with False i show ?thesis
      by (auto simp del: startsWith.simps)
  qed
qed

text \<open>The global replacement in \<^verbatim>\<open>PgTerm.print\<close> does what C9 says in words.\<close>

lemma replaceAll_newlines:
  "replaceAll s (LF @ LF) (LF @ str '' '' @ LF) = spaceDoubleNewlines s"
  by (induction s rule: spaceDoubleNewlines.induct) (simp_all add: LF_def str_def)

section \<open>parseCommand: which lines are recognised\<close>

lemma solana_not_builtin:
  assumes "takeWhile (\<lambda>c. c \<noteq> 0x20) s = str ''solana''"
  shows "s \<noteq> str ''help'' \<and> s \<noteq> str ''build'' \<and> s \<noteq> str ''connect'' \<and> s \<noteq> str ''deploy''"
  using assms by (auto simp: str_def)

text \<open>
  C1, as stated, fails. The source splits the trimmed line at the space U+0020 only
  (\<^verbatim>\<open>cmd.split(" ")\<close>), while \<^verbatim>\<open>trim\<close> and the notion of white space include the
  tab: the line \<^verbatim>\<open>solana<TAB>balance\<close> has the first white-space-delimited token
  \<^verbatim>\<open>solana\<close> and is not matched.
\<close>

theorem parseCommand_tab_not_matched:
  "firstToken (str ''solana'' @ [0x09] @ str ''balance'') = str ''solana''
   \<and> fst (parseCommand env0 None (str ''solana'' @ [0x09] @ str ''balance'')) = False"
  by (simp add: parseCommand_def Let_def at_def literal_defs firstToken_def)

text \<open>
  C1, amended: for every line, \<^verbatim>\<open>parseCommand\<close> returns matched if and only if the
  trimmed line is exactly \<^verbatim>\<open>help\<close>, \<^verbatim>\<open>build\<close>, \<^verbatim>\<open>connect\<close> or \<^verbatim>\<open>deploy\<close>, or the
  first space-delimited token of the trimmed line is exactly \<^verbatim>\<open>solana\<close>; in particular
  \<^verbatim>\<open>solana-keygen balance\<close> is not matched.
\<close>

theorem parseCommand_matched_iff:
  "fst (parseCommand env wasm line) =
     (trim line = str ''help'' \<or> trim line = str ''build'' \<or> trim line = str ''connect''
      \<or> trim line = str ''deploy'' \<or> firstSpaceToken line = str ''solana'')
   \<and> fst (parseCommand env wasm (str ''solana-keygen balance'')) = False"
proof
  show "fst (parseCommand env wasm line) =
     (trim line = str ''help'' \<or> trim line = str ''build'' \<or> trim line = str ''connect''
      \<or> trim line = str ''deploy'' \<or> firstSpaceToken line = str ''solana'')"
    by (simp add: parseCommand_def Let_def at_split_0 firstSpaceToken_def)
  show "fst (parseCommand env wasm (str ''solana-keygen balance'')) = False"
    by (simp add: parseCommand_def Let_def at_def literal_defs)
qed

text \<open>
  C3: for every connectivity state (and every \<^verbatim>\<open>wasm\<close> argument),
  \<^verbatim>\<open>parseCommand("deploy")\<close> returns matched, and the state signal \<^verbatim>\<open>deployStart\<close> is
  emitted if and only if \<^verbatim>\<open>PgWallet.checkIsPgConnected()\<close> holds; nothing else is emitted.
\<close>

theorem parseCommand_deploy:
  "fst (parseCommand env wasm (str ''deploy'')) = True
   \<and> (TerminalState deployStart \<in> set (snd (parseCommand env wasm (str ''deploy''))))
       = checkIsPgConnected env
   \<and> snd (parseCommand env wasm (str ''deploy'')) =
       (if checkIsPgConnected env then [TerminalState deployStart] else [])"
  by (simp add: parseCommand_def Let_def literal_defs)

text \<open>
  C4, as stated, fails. With the backend loaded the source still asks
  \<^verbatim>\<open>PgWallet.checkIsPgConnected()\<close> before it calls \<^verbatim>\<open>wasm.parseSolana\<close>: when the wallet
  is not connected, \<^verbatim>\<open>solana balance\<close> is matched and nothing is invoked or scheduled.
\<close>

theorem parseCommand_solana_not_connected:
  "firstToken (str ''solana balance'') = str ''solana''
   \<and> hasParseSolana wasmLoaded
   \<and> parseCommand env0 wasmLoaded (str ''solana balance'') = (True, [])"
  by (simp add: parseCommand_def Let_def at_def literal_defs firstToken_def
      hasParseSolana_def wasmLoaded_def env0_def)

text \<open>
  C4, amended: for every line whose trimmed form has \<^verbatim>\<open>solana\<close> as its first
  space-delimited token, \<^verbatim>\<open>parseCommand\<close> returns matched, and
  \<^item> if the backend is loaded and the wallet check holds, it invokes the backend with the
    trimmed line followed by the endpoint, the commitment and the keypair bytes, and
    schedules the re-enable after 1000 ms;
  \<^item> if the backend is loaded and the wallet check fails, it does nothing more;
  \<^item> if the backend is not loaded, it emits the load request and invokes nothing.
\<close>

theorem parseCommand_solana:
  assumes "firstSpaceToken line = str ''solana''"
  shows "parseCommand env wasm line =
     (True,
      if hasParseSolana wasm then
        (if checkIsPgConnected env
         then [ParseSolana (trim line)
                 [ArgString (endpoint env), ArgString (commitment env),
                  ArgBytes (keypairBytes env)],
               SetTimeout TerminalEnable 1000]
         else [])
      else [LoadWasm SOLANA_CLI])"
  using assms solana_not_builtin [of "trim line"]
  by (simp add: parseCommand_def Let_def at_split_0 firstSpaceToken_def getSolanaCliArgs_def)

theorem parseCommand_solana_witness:
  "firstSpaceToken (str '' solana balance '') = str ''solana''
   \<and> parseCommand env1 wasmLoaded (str '' solana balance '') =
     (True, [ParseSolana (str ''solana balance'')
               [ArgString (str ''http://localhost:8899''), ArgString (str ''confirmed''),
                ArgBytes [1, 2, 3]],
             SetTimeout TerminalEnable 1000])"
proof -
  have h: "firstSpaceToken (str '' solana balance '') = str ''solana''"
    by (simp add: firstSpaceToken_def literal_defs)
  have t: "trim (str '' solana balance '') = str ''solana balance''"
    by (simp add: literal_defs)
  show ?thesis
    using h parseCommand_solana [OF h, of env1 wasmLoaded]
    by (simp add: t env1_def env0_def hasParseSolana_def wasmLoaded_def)
qed

section \<open>convertErrorMessage: messages that make it throw\<close>

lemma programErrorLoop_failed_to_send:
  "programErrorLoop imp tbl (str ''failed to send'') = None"
proof (induction tbl)
  case Nil
  show ?case by simp
next
  case (Cons e tbl)
  obtain code reason where e: "e = (code, reason)" by (cases e)
  have "\<not> endsWith (str ''failed to send'') (str ''0x'' @ toLowerCase imp code)"
  proof
    assume "endsWith (str ''failed to send'') (str ''0x'' @ toLowerCase imp code)"
    from endsWith_set [OF this] show False by (simp add: str_def)
  qed
  with Cons e show ?case by simp
qed

text \<open>
  C2: the claim is that \<^verbatim>\<open>convertErrorMessage\<close> returns a string for every input and
  never throws. The source does not do that: for the message \<^verbatim>\<open>failed to send\<close>, whatever
  the tables are, \<^verbatim>\<open>msg.split(":")\<close> has one element, the branch for four segments is
  not taken, and \<^verbatim>\<open>parts[2][1]\<close> reads a property of \<^verbatim>\<open>undefined\<close>.
\<close>

theorem convertErrorMessage_failed_to_send_throws:
  "convertErrorMessage imp (str ''failed to send'') = Inl TypeError"
  by (simp add: convertErrorMessage_def programErrorLoop_failed_to_send)
     (simp add: descriptiveProgramError_def capitalized_def at_def str_def COLON_def)

section \<open>convertErrorMessage: the hexadecimal program errors\<close>

lemma programErrorLoop_None:
  "programErrorLoop imp tbl msg = None \<longleftrightarrow>
     (\<forall>(code, reason) \<in> set tbl. \<not> endsWith msg (str ''0x'' @ toLowerCase imp code))"
proof (induction tbl)
  case Nil
  show ?case by simp
next
  case (Cons e tbl)
  obtain k v where "e = (k, v)" by (cases e)
  with Cons show ?case by simp
qed

lemma programErrorLoop_Some:
  assumes "programErrorLoop imp tbl msg = Some r"
  shows "\<exists>code reason. (code, reason) \<in> set tbl
           \<and> endsWith msg (str ''0x'' @ toLowerCase imp code)
           \<and> r = hexProgramError imp msg reason"
  using assms
proof (induction tbl)
  case Nil
  then show ?case by simp
next
  case (Cons e tbl)
  obtain k v where e: "e = (k, v)" by (cases e)
  show ?case
  proof (cases "endsWith msg (str ''0x'' @ toLowerCase imp k)")
    case True
    with Cons.prems e have "r = hexProgramError imp msg v" by simp
    with True e show ?thesis by auto
  next
    case False
    with Cons.prems e have "programErrorLoop imp tbl msg = Some r" by simp
    from Cons.IH [OF this] e show ?thesis by auto
  qed
qed

text \<open>
  What the source does for a message that ends in a known code and has a third
  colon-delimited segment: the result names the instruction index, which is the last
  character of that segment when \<^verbatim>\<open>isInt\<close> accepts it and \<^verbatim>\<open>0\<close> otherwise, and the
  reason of a code of the table.
\<close>

lemma convertErrorMessage_hex_three_segments:
  assumes known: "(code, reason) \<in> set (PROGRAM_ERROR imp)"
      and suffix: "endsWith msg (str ''0x'' @ toLowerCase imp code)"
      and part: "at (split msg COLON) 2 = Some part2"
  shows "\<exists>reason' r. reason' \<in> snd ` set (PROGRAM_ERROR imp)
           \<and> convertErrorMessage imp msg = Inr r
           \<and> r = LF @ bold (str ''Instruction index:'') @ str '' '' @
                 (if isInt imp (charAt part2 (int (length part2) - 1))
                  then template (charAt part2 (int (length part2) - 1)) else str ''0'') @
                 LF @ bold (str ''Reason:'') @ str '' '' @ reason'
           \<and> includes_str r (str ''Instruction index:'') \<and> includes_str r reason'"
proof -
  from known suffix have "programErrorLoop imp (PROGRAM_ERROR imp) msg \<noteq> None"
    by (auto simp: programErrorLoop_None)
  then obtain res where res: "programErrorLoop imp (PROGRAM_ERROR imp) msg = Some res"
    by auto
  from programErrorLoop_Some [OF res] obtain code' reason' where
    in_tbl: "(code', reason') \<in> set (PROGRAM_ERROR imp)" and
    r: "res = hexProgramError imp msg reason'" by blast
  let ?ix = "if isInt imp (charAt part2 (int (length part2) - 1))
             then template (charAt part2 (int (length part2) - 1)) else str ''0''"
  let ?r = "LF @ bold (str ''Instruction index:'') @ str '' '' @ ?ix @
            LF @ bold (str ''Reason:'') @ str '' '' @ reason'"
  have eq: "convertErrorMessage imp msg = Inr ?r"
    using res r part
    by (simp add: convertErrorMessage_def hexProgramError_def Let_def template_def)
  have i1: "includes_str ?r (str ''Instruction index:'')"
    using includes_str_append [of "LF @ ESC @ str ''[1m''" "str ''Instruction index:''"
        "RESET @ str '' '' @ ?ix @ LF @ bold (str ''Reason:'') @ str '' '' @ reason'"]
    by (simp add: bold_def)
  have i2: "includes_str ?r reason'"
    using includes_str_append [of "LF @ bold (str ''Instruction index:'') @ str '' '' @ ?ix @
            LF @ bold (str ''Reason:'') @ str '' ''" reason' "[]"]
    by simp
  from in_tbl have "reason' \<in> snd ` set (PROGRAM_ERROR imp)" by force
  with eq i1 i2 show ?thesis by blast
qed

text \<open>
  C5: the claim is that every message ending in a known hexadecimal code is turned into a
  text with the instruction index and the reason. The source does so only when the
  message has a third colon-delimited segment. The message
  \<^verbatim>\<open>custom program error: 0x1\<close> ends in the code \<^verbatim>\<open>1\<close> of the table and has two
  segments: \<^verbatim>\<open>parts[2].length\<close> reads a property of \<^verbatim>\<open>undefined\<close>.
\<close>

theorem convertErrorMessage_hex_two_segments_throws:
  "(str ''1'', str ''Insufficient funds'') \<in> set (PROGRAM_ERROR imp0)
   \<and> endsWith (str ''custom program error: 0x1'') (str ''0x'' @ toLowerCase imp0 (str ''1''))
   \<and> convertErrorMessage imp0 (str ''custom program error: 0x1'') = Inl TypeError"
  by (simp add: convertErrorMessage_def imp0_def endsWith_def asciiLower_def
      hexProgramError_def at_def COLON_def str_def)

section \<open>convertErrorMessage: messages that match no table\<close>

lemma rpcErrorLoop_None:
  "rpcErrorLoop tbl msg = None \<longleftrightarrow>
     (\<forall>(rpcError, text) \<in> set tbl. \<not> includes_str msg rpcError)"
proof (induction tbl)
  case Nil
  show ?case by simp
next
  case (Cons e tbl)
  obtain k v where "e = (k, v)" by (cases e)
  with Cons show ?case by simp
qed

lemma exactErrorLoop_None:
  "exactErrorLoop tbl msg = None \<longleftrightarrow> msg \<notin> fst ` set tbl"
proof (induction tbl)
  case Nil
  show ?case by simp
next
  case (Cons e tbl)
  obtain k v where "e = (k, v)" by (cases e)
  with Cons show ?case by simp
qed

text \<open>
  C6: a message that ends in no known hexadecimal code, does not start with
  \<^verbatim>\<open>failed to send\<close>, contains no key of the RPC table and is no key of the server and
  other tables is returned unchanged.
\<close>

theorem convertErrorMessage_unmatched:
  assumes "\<forall>(code, reason) \<in> set (PROGRAM_ERROR imp).
             \<not> endsWith msg (str ''0x'' @ toLowerCase imp code)"
      and "\<not> startsWith msg (str ''failed to send'')"
      and "\<forall>(rpcError, text) \<in> set (RPC_ERROR imp). \<not> includes_str msg rpcError"
      and "msg \<notin> fst ` set (SERVER_ERROR imp)"
      and "msg \<notin> fst ` set (OTHER_ERROR imp)"
  shows "convertErrorMessage imp msg = Inr msg"
proof -
  have "programErrorLoop imp (PROGRAM_ERROR imp) msg = None"
    using assms(1) by (simp only: programErrorLoop_None)
  moreover have "rpcErrorLoop (RPC_ERROR imp) msg = None"
    using assms(3) by (simp only: rpcErrorLoop_None)
  moreover have "exactErrorLoop (SERVER_ERROR imp) msg = None"
    using assms(4) by (simp add: exactErrorLoop_None)
  moreover have "exactErrorLoop (OTHER_ERROR imp) msg = None"
    using assms(5) by (simp add: exactErrorLoop_None)
  ultimately show ?thesis
    using assms(2) by (simp add: convertErrorMessage_def)
qed

theorem convertErrorMessage_unmatched_witness:
  "\<not> startsWith (str ''Blockhash not found'') (str ''failed to send'')
   \<and> str ''Blockhash not found'' \<notin> fst ` set (SERVER_ERROR imp0)
   \<and> str ''Blockhash not found'' \<notin> fst ` set (OTHER_ERROR imp0)
   \<and> convertErrorMessage imp0 (str ''Blockhash not found'') = Inr (str ''Blockhash not found'')"
proof -
  have 1: "\<forall>(code, reason) \<in> set (PROGRAM_ERROR imp0).
             \<not> endsWith (str ''Blockhash not found'') (str ''0x'' @ toLowerCase imp0 code)"
    by (simp add: imp0_def endsWith_def str_def asciiLower_def)
  have 2: "\<not> startsWith (str ''Blockhash not found'') (str ''failed to send'')"
    by (simp add: str_def)
  have 3: "\<forall>(rpcError, text) \<in> set (RPC_ERROR imp0).
             \<not> includes_str (str ''Blockhash not found'') rpcError"
    by (simp add: imp0_def includes_str_def indexOf_def str_def)
  have 4: "str ''Blockhash not found'' \<notin> fst ` set (SERVER_ERROR imp0)"
    by (simp add: imp0_def str_def)
  have 5: "str ''Blockhash not found'' \<notin> fst ` set (OTHER_ERROR imp0)"
    by (simp add: imp0_def str_def)
  from 2 4 5 convertErrorMessage_unmatched [OF 1 2 3 4 5] show ?thesis
    by blast
qed

section \<open>editStderr: removing the Compiling line\<close>

lemmas eval_defs = str_def LF_def COMPILING_def includes_str_def indexOf_def indexOfFrom_def
  homeMatch_def isWhiteSpace_def isLineTerminator_def substring_def substringFrom_def
  clampIndex_def success_def ESC_def RESET_def

lemma removeHomePaths_id: "noHomePath s \<Longrightarrow> removeHomePaths s = s"
  by (induction s) simp_all

text \<open>
  On a text without path fragment, uuid and \<^verbatim>\<open>For more\<close>, the first three steps change
  nothing, and the result is decided by the text \<open>y\<close> left after the Compiling line has
  been removed and by the position \<open>i\<close> of the marker \<^verbatim>\<open>Finished release\<close> in \<open>y\<close>.
\<close>

lemma editStderr_clean:
  assumes "noHomePath s"
      and "\<not> includes_str s uuid"
      and "\<not> includes_str s (str ''For more'')"
      and "replace s COMPILING [] = y"
      and "indexOf y (str ''Finished release'') = i"
  shows "editStderr s uuid =
     (if i \<noteq> -1 then
        substring y 0 (i - 7) @
        replaceAll (substring y (i - 7) i) (str '' '') [] @
        success (str ''Build successful. '') @
        str ''Completed'' @
        replace (substringFrom y (indexOfFrom y (str '' in'') i)) LF (str ''.'' @ LF)
      else y)"
  using assms
  by (simp add: editStderr_def Let_def removeHomePaths_id not_includes_str replaceAll_id
      indexOf_absent)

text \<open>
  C8, as stated, fails. The steps run one after the other, each on the result of the one
  before: removing the Compiling line can join the text before it and the text after it
  into the marker \<^verbatim>\<open>Finished release\<close>, which the input did not contain, and the last
  step then rewrites the text. The input below has the Compiling text twice, once inside
  a line and once as a whole line; the result is not the input with one of them removed.
\<close>

theorem editStderr_join_creates_marker:
  "includes_str stderrJoin COMPILING
   \<and> noHomePath stderrJoin
   \<and> \<not> includes_str stderrJoin (str ''4d2f'')
   \<and> \<not> includes_str stderrJoin (str ''For more'')
   \<and> \<not> includes_str stderrJoin (str ''Finished release'')
   \<and> editStderr stderrJoin (str ''4d2f'') =
       success (str ''Build successful. '') @ str ''CompletedFinished release.'' @ LF @
       str ''Compiling solpg v0.1.0'' @ LF
   \<and> length (editStderr stderrJoin (str ''4d2f'')) \<noteq> length stderrJoin - length COMPILING"
proof -
  have 1: "includes_str stderrJoin COMPILING"
    by (simp add: stderrJoin_def eval_defs)
  have 2: "noHomePath stderrJoin"
    by (simp add: stderrJoin_def eval_defs)
  have 3: "\<not> includes_str stderrJoin (str ''4d2f'')"
    by (simp add: stderrJoin_def eval_defs)
  have 4: "\<not> includes_str stderrJoin (str ''For more'')"
    by (simp add: stderrJoin_def eval_defs)
  have 5: "\<not> includes_str stderrJoin (str ''Finished release'')"
    by (simp add: stderrJoin_def eval_defs)
  have r: "replace stderrJoin COMPILING [] = stderrJoined"
    by (simp add: stderrJoin_def stderrJoined_def eval_defs)
  have s: "indexOf stderrJoined (str ''Finished release'') = 0"
    by (simp add: stderrJoined_def eval_defs)
  have t: "indexOfFrom stderrJoined (str '' in'') 0 = -1"
    by (simp add: stderrJoined_def eval_defs)
  have u: "replace stderrJoined LF (str ''.'' @ LF) =
             str ''Finished release.'' @ LF @ str ''Compiling solpg v0.1.0'' @ LF"
    by (simp add: stderrJoined_def eval_defs)
  have e: "editStderr stderrJoin (str ''4d2f'') =
       success (str ''Build successful. '') @ str ''CompletedFinished release.'' @ LF @
       str ''Compiling solpg v0.1.0'' @ LF"
    by (simp add: editStderr_clean [OF 2 3 4 r s] t u substring_def substringFrom_def
        clampIndex_def)
       (simp add: str_def)
  have l: "length (editStderr stderrJoin (str ''4d2f'')) \<noteq> length stderrJoin - length COMPILING"
    by (simp add: e) (simp add: stderrJoin_def eval_defs)
  from 1 2 3 4 5 e l show ?thesis by blast
qed

text \<open>
  C8, amended: for every input that contains the text \<^verbatim>\<open>Compiling solpg v0.1.0\n\<close>,
  contains no home-directory path fragment, no occurrence of the uuid, no \<^verbatim>\<open>For more\<close>
  and no \<^verbatim>\<open>Finished release\<close>, and in which removing the first occurrence of the
  Compiling text does not produce a \<^verbatim>\<open>Finished release\<close> either, \<^verbatim>\<open>editStderr\<close>
  returns the input with the first occurrence of the Compiling text removed and
  everything before and after it unchanged. (The model has no error result:
  \<^verbatim>\<open>editStderr\<close> applies total string operations only.)
\<close>

theorem editStderr_removes_compiling:
  assumes "includes_str stderr COMPILING"
      and "noHomePath stderr"
      and "\<not> includes_str stderr uuid"
      and "\<not> includes_str stderr (str ''For more'')"
      and "\<not> includes_str stderr (str ''Finished release'')"
      and "\<not> includes_str (replace stderr COMPILING []) (str ''Finished release'')"
  shows "\<exists>pre post. stderr = pre @ COMPILING @ post
           \<and> indexOf stderr COMPILING = int (length pre)
           \<and> editStderr stderr uuid = pre @ post"
proof -
  have "indexOf (replace stderr COMPILING []) (str ''Finished release'') = -1"
    using assms(6) by (rule indexOf_absent)
  from editStderr_clean [OF assms(2) assms(3) assms(4) refl this]
  have result: "editStderr stderr uuid = replace stderr COMPILING []"
    by simp
  from assms(1) obtain i where i: "findIndex stderr COMPILING = Some i"
    by (auto simp: includes_str_def indexOf_def split: option.splits)
  from findIndex_Some [OF i, of "[]"] obtain post where
    post: "stderr = take i stderr @ COMPILING @ post" "i \<le> length stderr"
      "replace stderr COMPILING [] = take i stderr @ post"
    by auto
  have "indexOf stderr COMPILING = int (length (take i stderr))"
    using i post(2) by (simp add: indexOf_def)
  with post result show ?thesis by metis
qed

theorem editStderr_removes_compiling_witness:
  "includes_str stderrOk COMPILING
   \<and> noHomePath stderrOk
   \<and> \<not> includes_str stderrOk (str ''4d2f'')
   \<and> \<not> includes_str stderrOk (str ''For more'')
   \<and> \<not> includes_str stderrOk (str ''Finished release'')
   \<and> \<not> includes_str (replace stderrOk COMPILING []) (str ''Finished release'')
   \<and> editStderr stderrOk (str ''4d2f'') = str ''   warning: unused variable'' @ LF"
proof -
  have 1: "includes_str stderrOk COMPILING"
    by (simp add: stderrOk_def eval_defs)
  have 2: "noHomePath stderrOk"
    by (simp add: stderrOk_def eval_defs)
  have 3: "\<not> includes_str stderrOk (str ''4d2f'')"
    by (simp add: stderrOk_def eval_defs)
  have 4: "\<not> includes_str stderrOk (str ''For more'')"
    by (simp add: stderrOk_def eval_defs)
  have 5: "\<not> includes_str stderrOk (str ''Finished release'')"
    by (simp add: stderrOk_def eval_defs)
  have r: "replace stderrOk COMPILING [] = str ''   warning: unused variable'' @ LF"
    by (simp add: stderrOk_def eval_defs)
  have 6: "\<not> includes_str (replace stderrOk COMPILING []) (str ''Finished release'')"
    by (simp add: r) (simp add: eval_defs)
  from editStderr_removes_compiling [OF 1 2 3 4 5 6]
  obtain pre post where pp: "stderrOk = pre @ COMPILING @ post"
    "indexOf stderrOk COMPILING = int (length pre)"
    "editStderr stderrOk (str ''4d2f'') = pre @ post"
    by blast
  have "indexOf stderrOk COMPILING = 3"
    by (simp add: stderrOk_def eval_defs)
  with pp(2) have n: "length pre = 3" by simp
  from pp(1) n have "pre = take 3 stderrOk"
    by (metis append_eq_conv_conj)
  moreover from pp(1) n have "post = drop (3 + length COMPILING) stderrOk"
    by (metis append_eq_conv_conj append.assoc length_append)
  ultimately have "editStderr stderrOk (str ''4d2f'') =
      take 3 stderrOk @ drop (3 + length COMPILING) stderrOk"
    using pp(3) by simp
  also have "\<dots> = str ''   warning: unused variable'' @ LF"
    by (simp add: stderrOk_def eval_defs)
  finally show ?thesis using 1 2 3 4 5 6 by blast
qed

section \<open>PgTerm: printing, resizing and replaying\<close>

text \<open>
  C9: for every message, \<^verbatim>\<open>print\<close> hands the display the rewritten message, in which
  every pair of consecutive newlines found from the left has a space between its
  newlines (followed by a newline when the shell is prompting), and nothing when the
  terminal is not open; so the text handed over is not always the message itself, as for
  \<^verbatim>\<open>a\n\nb\<close>. Of three newlines only the first two form a pair.
\<close>

theorem print_rewrites_message:
  "screen (pgTty (print message sync term)) =
     screen (pgTty term) @
       (if \<not> isOpen term then []
        else if isPrompting (pgShell term)
        then [ErasedInput, Text (spaceDoubleNewlines message @ LF) sync,
              RenderedInput (PROMPT @ input (pgTty term))]
        else [Text (spaceDoubleNewlines message) sync])
   \<and> spaceDoubleNewlines (str ''a'' @ LF @ LF @ str ''b'') =
       str ''a'' @ LF @ str '' '' @ LF @ str ''b''
   \<and> spaceDoubleNewlines (LF @ LF @ LF) = LF @ str '' '' @ LF @ LF"
  by (simp add: print_def Let_def replaceAll_newlines printAndRestartPrompt_def tty_print_def
      clearInput_def)
     (simp add: LF_def str_def)

text \<open>
  C7: a resize notification leaves the text and the cursor offset of the InputLine as they
  were, in every state of the shell, for an InputLine whose cursor offset lies within its
  text (the invariant of the data model). The call only clears the rendered input, stores
  the new size and renders the same text again.
\<close>

theorem handleTermResize_keeps_input:
  assumes "cursor (pgTty term) \<le> length (input (pgTty term))"
  shows "input (pgTty (handleTermResize rows cols term)) = input (pgTty term)
       \<and> cursor (pgTty (handleTermResize rows cols term)) = cursor (pgTty term)
       \<and> termCols (pgTty (handleTermResize rows cols term)) = cols
       \<and> termRows (pgTty (handleTermResize rows cols term)) = rows
       \<and> screen (pgTty (handleTermResize rows cols term)) =
           screen (pgTty term) @ [ErasedInput, RenderedInput (input (pgTty term))]
       \<and> pgShell (handleTermResize rows cols term) = pgShell term
       \<and> isOpen (handleTermResize rows cols term) = isOpen term"
  using assms
  by (simp add: handleTermResize_def Let_def clearInput_def setTermSize_def setInput_def
      getInput_def)

theorem handleTermResize_keeps_input_witness:
  "cursor (pgTty term0) \<le> length (input (pgTty term0))
   \<and> input (pgTty (handleTermResize 30 100 term0)) = str ''sol''
   \<and> cursor (pgTty (handleTermResize 30 100 term0)) = 2
   \<and> termCols (pgTty (handleTermResize 30 100 term0)) = 100
   \<and> termRows (pgTty (handleTermResize 30 100 term0)) = 30"
proof -
  have h: "cursor (pgTty term0) \<le> length (input (pgTty term0))"
    by (simp add: term0_def str_def)
  show ?thesis
    using h handleTermResize_keeps_input [OF h, of 30 100]
    by (simp add: term0_def)
qed

text \<open>
  C10: with a history that is not empty, \<^verbatim>\<open>runLastCmd\<close> submits the most recent history
  entry in every state of the shell: the line handed to the dispatcher is that entry and
  the shell is Dispatching afterwards. \<^verbatim>\<open>runCommand\<close> changes nothing unless the shell is
  prompting.
\<close>

theorem runLastCmd_unconditional:
  "(history (pgShell term) \<noteq> [] \<longrightarrow>
      (\<exists>term'. runLastCmd term = Some term'
         \<and> dispatched (pgShell term') =
             dispatched (pgShell term) @ [last (history (pgShell term))]
         \<and> state (pgShell term') = Dispatching))
   \<and> (\<not> isPrompting (pgShell term) \<longrightarrow> runCommand line term = term)"
  by (simp add: runLastCmd_def runCommand_def getPrevious_def handleReadComplete_def
      setInput_def clearInput_def getInput_def Let_def)

theorem runLastCmd_unconditional_witness:
  "history (pgShell term0) \<noteq> []
   \<and> \<not> isPrompting (pgShell term0)
   \<and> (\<exists>term'. runLastCmd term0 = Some term'
         \<and> dispatched (pgShell term') = [str ''solana balance'']
         \<and> state (pgShell term') = Dispatching)
   \<and> runCommand (str ''build'') term0 = term0"
proof -
  have h: "history (pgShell term0) \<noteq> []"
    by (simp add: term0_def)
  have i: "\<not> isPrompting (pgShell term0)"
    by (simp add: term0_def isPrompting_def)
  have l: "dispatched (pgShell term0) @ [last (history (pgShell term0))] =
             [str ''solana balance'']"
    by (simp add: term0_def)
  from runLastCmd_unconditional [of term0 "str ''build''"] h i l show ?thesis
    by simp
qed

end
